theory Spec2Isabelle
  imports Complex_Main
begin

section \<open>The Celery autoscaler of \<^verbatim>\<open>gemini_fastapi/scaler.py\<close>\<close>

text \<open>
  The development embeds \<^verbatim>\<open>ScalingConfig\<close> and the methods of \<^verbatim>\<open>CeleryScaler\<close>.
  The scaler object is a record that every method takes and returns; what lies outside
  the Python process (Redis, the Celery control channel, the operating system, the clock,
  the logger) is split in two: an \<open>environment\<close> of replies that the program cannot
  influence, and a \<open>world\<close> that the program changes by its calls.
\<close>

subsection \<open>Configuration and scaler state\<close>

record ScalingConfig =
  min_workers :: int
  max_workers :: int
  tasks_per_worker :: int
  check_interval :: int
  scale_up_threshold :: real
  scale_down_threshold :: real
  cooldown_period :: int
  worker_startup_time :: int
  worker_prefix :: string

definition default_config :: ScalingConfig where
  "default_config =
     \<lparr>min_workers = 3, max_workers = 50, tasks_per_worker = 1, check_interval = 10,
      scale_up_threshold = 0.8, scale_down_threshold = 0.3, cooldown_period = 60,
      worker_startup_time = 30, worker_prefix = ''celery_worker''\<rparr>"

text \<open>
  \<^verbatim>\<open>worker_processes\<close> is a Python dict from worker name to \<^verbatim>\<open>Popen\<close> object. A dict
  keeps insertion order and \<^verbatim>\<open>scale_down\<close> depends on it, so it is an association list;
  a process handle is the number of the \<^verbatim>\<open>Popen\<close> call that created it. Times are
  microseconds (the resolution of \<^verbatim>\<open>datetime\<close>). \<^verbatim>\<open>lock_held\<close> is the state of
  \<^verbatim>\<open>self.lock\<close>, a non-reentrant \<^verbatim>\<open>threading.Lock\<close>.
\<close>

record scaler =
  last_scale_time :: int
  running :: bool
  worker_processes :: "(string \<times> nat) list"
  lock_held :: bool

subsection \<open>Exceptions, environment and world\<close>

text \<open>
  The exceptions below are all subclasses of \<^verbatim>\<open>Exception\<close>; \<open>OtherException\<close> stands
  for any further subclass of it. \<^verbatim>\<open>SystemExit\<close> and \<^verbatim>\<open>KeyboardInterrupt\<close> are not
  subclasses of \<^verbatim>\<open>Exception\<close> and are not modelled.
\<close>

datatype exn =
  RedisError | TimeoutExpired | ZeroDivisionError | KeyError | ValueError | OSError
  | OtherException

datatype level = INFO | WARNING | ERROR

datatype event =
  Log level string
  | Popen string
  | Terminate nat
  | Wait nat int
  | Kill nat
  | Sleep int
  | Untrack string

text \<open>
  The trace lists, in program order, the calls the scaler makes to the outside; \<open>Untrack\<close>
  records the one statement of \<^verbatim>\<open>scale_down\<close> that takes a handle out of the worker
  map (\<^verbatim>\<open>del self.worker_processes[worker_name]\<close>), so that its place among the calls can
  be stated.

  The environment fixes, for the \<open>n\<close>-th call of each kind, what the outside answers:
  \<^item> \<open>llen_reply\<close>: \<^verbatim>\<open>int(self.redis_conn.llen(queue_name))\<close>, for the named queue,
    raises or gives a number;
  \<^item> \<open>inspect_reply\<close>: \<^verbatim>\<open>inspect().active()\<close> raises, gives \<^verbatim>\<open>None\<close>, or a dict with
    that many entries;
  \<^item> \<open>uuid_reply\<close>, \<open>hostname\<close>: the first eight characters of \<^verbatim>\<open>uuid4()\<close> and the host name;
  \<^item> \<open>popen_reply\<close>: \<^verbatim>\<open>subprocess.Popen\<close> raises or launches the process;
  \<^item> \<open>heeds_term\<close>: whether a process exits within the five seconds that follow SIGTERM.

  In the world, \<open>alive p\<close> says that process \<open>p\<close> has been launched and that no
  \<^verbatim>\<open>wait\<close> has seen it exit: it may still be running. \<open>exiting p\<close> says that a signal
  which ends the process has been sent to it (SIGKILL, or SIGTERM to a process that heeds
  it). Sending a signal does not wait for the exit; only a \<^verbatim>\<open>wait\<close> observes it.
\<close>

record environment =
  llen_reply :: "string \<Rightarrow> nat \<Rightarrow> exn + int"
  inspect_reply :: "nat \<Rightarrow> exn + nat option"
  uuid_reply :: "nat \<Rightarrow> string"
  hostname :: string
  popen_reply :: "nat \<Rightarrow> exn option"
  heeds_term :: "nat \<Rightarrow> bool"

record world =
  clock :: int
  llen_calls :: nat
  inspect_calls :: nat
  uuid_calls :: nat
  popen_calls :: nat
  alive :: "nat \<Rightarrow> bool"
  exiting :: "nat \<Rightarrow> bool"
  trace :: "event list"

definition log :: "level \<Rightarrow> string \<Rightarrow> world \<Rightarrow> world" where
  "log l m w = w\<lparr>trace := trace w @ [Log l m]\<rparr>"

subsection \<open>Python values: dicts, slices, truncation, timedelta, sleep\<close>

definition dict_keys :: "('k \<times> 'v) list \<Rightarrow> 'k set" where
  "dict_keys d = fst ` set d"

definition dict_set :: "'k \<Rightarrow> 'v \<Rightarrow> ('k \<times> 'v) list \<Rightarrow> ('k \<times> 'v) list" where
  \<comment> \<open>\<^verbatim>\<open>d[k] = v\<close>: an existing key keeps its place, a new one goes last.\<close>
  "dict_set k v d =
     (if k \<in> dict_keys d then map (\<lambda>(k', v'). if k' = k then (k', v) else (k', v')) d
      else d @ [(k, v)])"

definition dict_del :: "'k \<Rightarrow> ('k \<times> 'v) list \<Rightarrow> exn + ('k \<times> 'v) list" where
  \<comment> \<open>\<^verbatim>\<open>del d[k]\<close> raises \<^verbatim>\<open>KeyError\<close> on a missing key.\<close>
  "dict_del k d =
     (if k \<in> dict_keys d then Inr (filter (\<lambda>(k', v'). k' \<noteq> k) d) else Inl KeyError)"

definition py_slice_to :: "int \<Rightarrow> 'a list \<Rightarrow> 'a list" where
  \<comment> \<open>\<^verbatim>\<open>xs[:n]\<close>; a negative \<open>n\<close> counts from the end.\<close>
  "py_slice_to n xs =
     (if 0 \<le> n then take (nat n) xs else take (length xs - nat (- n)) xs)"

definition py_int :: "real \<Rightarrow> int" where
  \<comment> \<open>\<^verbatim>\<open>int(x)\<close> of a float: truncation towards zero.\<close>
  "py_int x = (if 0 \<le> x then \<lfloor>x\<rfloor> else \<lceil>x\<rceil>)"

definition timedelta_seconds :: "int \<Rightarrow> int" where
  \<comment> \<open>The \<^verbatim>\<open>.seconds\<close> field of a \<^verbatim>\<open>timedelta\<close> of that many microseconds: a
      \<^verbatim>\<open>timedelta\<close> is normalised to days, seconds in \<open>[0, 86400)\<close> and microseconds.\<close>
  "timedelta_seconds us = (us div 1000000) mod 86400"

definition py_sleep :: "int \<Rightarrow> world \<Rightarrow> exn option \<times> world" where
  \<comment> \<open>\<^verbatim>\<open>time.sleep(secs)\<close> raises \<^verbatim>\<open>ValueError\<close> on a negative length.\<close>
  "py_sleep secs w =
     (if secs < 0 then (Some ValueError, w)
      else (None, w\<lparr>clock := clock w + secs * 1000000, trace := trace w @ [Sleep secs]\<rparr>))"

subsection \<open>Processes\<close>

definition popen :: "environment \<Rightarrow> string \<Rightarrow> world \<Rightarrow> (exn + nat) \<times> world" where
  "popen env name w =
     (let i = popen_calls w;
          w1 = w\<lparr>popen_calls := Suc i, trace := trace w @ [Popen name]\<rparr>
      in case popen_reply env i of
           Some e \<Rightarrow> (Inl e, w1)
         | None \<Rightarrow>
             (Inr i, w1\<lparr>alive := (alive w1)(i := True), exiting := (exiting w1)(i := False)\<rparr>))"

definition terminate :: "environment \<Rightarrow> nat \<Rightarrow> world \<Rightarrow> world" where
  \<comment> \<open>\<^verbatim>\<open>process.terminate()\<close> sends SIGTERM and returns; a process that heeds it is
      on its way out.\<close>
  "terminate env p w =
     w\<lparr>exiting := (if heeds_term env p then (exiting w)(p := True) else exiting w),
       trace := trace w @ [Terminate p]\<rparr>"

definition wait :: "nat \<Rightarrow> int \<Rightarrow> world \<Rightarrow> exn option \<times> world" where
  \<comment> \<open>\<^verbatim>\<open>process.wait(timeout=t)\<close>: a process that runs on with no ending signal sent
      makes it raise \<^verbatim>\<open>TimeoutExpired\<close> after \<open>t\<close> seconds; otherwise it returns, and
      the exit of the process has then been seen.\<close>
  "wait p t w =
     (if alive w p \<and> \<not> exiting w p
      then (Some TimeoutExpired,
            w\<lparr>clock := clock w + t * 1000000, trace := trace w @ [Wait p t]\<rparr>)
      else (None, w\<lparr>alive := (alive w)(p := False), trace := trace w @ [Wait p t]\<rparr>))"

definition kill :: "nat \<Rightarrow> world \<Rightarrow> world" where
  \<comment> \<open>\<^verbatim>\<open>process.kill()\<close> sends SIGKILL and returns. The process cannot ignore it, but
      nothing has seen it exit yet.\<close>
  "kill p w = w\<lparr>exiting := (exiting w)(p := True), trace := trace w @ [Kill p]\<rparr>"

subsection \<open>Metrics\<close>

definition generate_worker_name :: "ScalingConfig \<Rightarrow> environment \<Rightarrow> world \<Rightarrow> string \<times> world" where
  "generate_worker_name cfg env w =
     (worker_prefix cfg @ ''_'' @ hostname env @ ''_'' @ uuid_reply env (uuid_calls w),
      w\<lparr>uuid_calls := Suc (uuid_calls w)\<rparr>)"

definition get_queue_length :: "environment \<Rightarrow> string \<Rightarrow> world \<Rightarrow> int \<times> world" where
  "get_queue_length env queue_name w =
     (let w1 = w\<lparr>llen_calls := Suc (llen_calls w)\<rparr>
      in case llen_reply env queue_name (llen_calls w) of
           Inr n \<Rightarrow> (n, w1)
         | Inl e \<Rightarrow>
             (if e = RedisError
              then (0, log ERROR ''Redis error while getting queue length'' w1)
              else (0, log ERROR ''Unexpected error while getting queue length'' w1)))"

definition get_active_workers :: "environment \<Rightarrow> scaler \<Rightarrow> world \<Rightarrow> int \<times> world" where
  "get_active_workers env s w =
     (let w1 = w\<lparr>inspect_calls := Suc (inspect_calls w)\<rparr>
      in case inspect_reply env (inspect_calls w) of
           Inr None \<Rightarrow> (int (length (worker_processes s)), w1)
         | Inr (Some k) \<Rightarrow> (int k, w1)
         | Inl e \<Rightarrow>
             (int (length (worker_processes s)),
              log ERROR ''Failed to get active workers count'' w1))"

subsection \<open>The scaling policy\<close>

definition should_scale :: "ScalingConfig \<Rightarrow> scaler \<Rightarrow> world \<Rightarrow> int \<Rightarrow> int \<Rightarrow> bool" where
  \<comment> \<open>The product \<^verbatim>\<open>current_workers * 0.2\<close> is taken over the reals. The source takes it in
      binary64; truncated, the two agree for \<open>0 \<le> current_workers < 2\<^sup>5\<^sup>0\<close> and differ for
      some counts from about \<open>6.7 \<times> 10\<^sup>1\<^sup>5\<close> on, so what is proved of the deadband is
      stated for that range only.\<close>
  "should_scale cfg s w desired_workers current_workers =
     (if timedelta_seconds (clock w - last_scale_time s) < cooldown_period cfg then False
      else let worker_difference = \<bar>desired_workers - current_workers\<bar>
           in worker_difference \<ge> max 2 (py_int (of_int current_workers * 0.2)))"

definition desired_workers :: "ScalingConfig \<Rightarrow> int \<Rightarrow> int" where
  \<comment> \<open>The expression bound to \<^verbatim>\<open>desired_workers\<close> in \<^verbatim>\<open>scale_workers\<close>; \<^verbatim>\<open>//\<close> is floor
      division and is reached only with a divisor other than zero.\<close>
  "desired_workers cfg queue_length =
     max (min_workers cfg)
         (min (max_workers cfg) ((queue_length div tasks_per_worker cfg) + 1))"

subsection \<open>Scaling up and down\<close>

fun spawn_loop ::
  "ScalingConfig \<Rightarrow> environment \<Rightarrow> nat \<Rightarrow> scaler \<Rightarrow> world \<Rightarrow> exn option \<times> scaler \<times> world" where
  "spawn_loop cfg env 0 s w = (None, s, w)"
| "spawn_loop cfg env (Suc n) s w =
     (let (worker_name, w1) = generate_worker_name cfg env w
      in case popen env worker_name w1 of
           (Inl e, w2) \<Rightarrow> (Some e, s, w2)
         | (Inr process, w2) \<Rightarrow>
             spawn_loop cfg env n
               (s\<lparr>worker_processes := dict_set worker_name process (worker_processes s)\<rparr>) w2)"

definition scale_up :: "ScalingConfig \<Rightarrow> environment \<Rightarrow> scaler \<Rightarrow> world \<Rightarrow> int \<Rightarrow> scaler \<times> world" where
  "scale_up cfg env s w count =
     (case spawn_loop cfg env (nat count) s (log INFO ''Scaling up'' w) of
        (Some e, s1, w1) \<Rightarrow> (s1, log ERROR ''Failed to scale up workers'' w1)
      | (None, s1, w1) \<Rightarrow>
          (let s2 = s1\<lparr>last_scale_time := clock w1\<rparr>
           in if count = 0 then (s2, log ERROR ''Failed to scale up workers'' w1)
              else case py_sleep (min 2 (worker_startup_time cfg div count)) w1 of
                     (Some e, w2) \<Rightarrow> (s2, log ERROR ''Failed to scale up workers'' w2)
                   | (None, w2) \<Rightarrow> (s2, w2)))"

definition stop_worker ::
  "environment \<Rightarrow> string \<times> nat \<Rightarrow> scaler \<Rightarrow> world \<Rightarrow> exn option \<times> scaler \<times> world" where
  \<comment> \<open>The body of the loop of \<^verbatim>\<open>scale_down\<close>, for one entry of \<^verbatim>\<open>workers_to_remove\<close>.
      The inner \<^verbatim>\<open>try\<close> catches \<^verbatim>\<open>TimeoutExpired\<close> only; any other exception leaves
      the loop for the handler of \<^verbatim>\<open>scale_down\<close>.\<close>
  "stop_worker env item s w =
     (let (worker_name, process) = item;
          w1 = terminate env process w;
          (r, w2) = wait process 5 w1
      in if r \<noteq> None \<and> r \<noteq> Some TimeoutExpired then (r, s, w2)
         else
           let w3 = (if r = Some TimeoutExpired then kill process w2 else w2)
           in case dict_del worker_name (worker_processes s) of
                Inl e \<Rightarrow> (Some e, s, w3)
              | Inr d \<Rightarrow>
                  (None, s\<lparr>worker_processes := d\<rparr>,
                   w3\<lparr>trace := trace w3 @ [Untrack worker_name]\<rparr>))"

fun scale_down_loop ::
  "environment \<Rightarrow> (string \<times> nat) list \<Rightarrow> scaler \<Rightarrow> world \<Rightarrow> exn option \<times> scaler \<times> world" where
  "scale_down_loop env [] s w = (None, s, w)"
| "scale_down_loop env (item # items) s w =
     (case stop_worker env item s w of
        (Some e, s1, w1) \<Rightarrow> (Some e, s1, w1)
      | (None, s1, w1) \<Rightarrow> scale_down_loop env items s1 w1)"

definition scale_down :: "environment \<Rightarrow> scaler \<Rightarrow> world \<Rightarrow> int \<Rightarrow> scaler \<times> world" where
  "scale_down env s w count =
     (let workers_to_remove = py_slice_to count (worker_processes s)
      in case scale_down_loop env workers_to_remove s (log INFO ''Scaling down'' w) of
           (Some e, s1, w1) \<Rightarrow> (s1, log ERROR ''Failed to scale down workers'' w1)
         | (None, s1, w1) \<Rightarrow> (s1\<lparr>last_scale_time := clock w1\<rparr>, w1))"

text \<open>
  \<^verbatim>\<open>scale_workers\<close> runs under \<^verbatim>\<open>with self.lock\<close>. Acquiring a lock that is held never
  returns (nothing in the same thread of control releases it): that is \<open>None\<close>. Otherwise
  the result says whether an exception left the method; the lock is released on every way
  out of the \<^verbatim>\<open>with\<close> block.
\<close>

definition scale_workers ::
  "ScalingConfig \<Rightarrow> environment \<Rightarrow> scaler \<Rightarrow> world \<Rightarrow> int \<Rightarrow> (exn option \<times> scaler \<times> world) option" where
  "scale_workers cfg env s w queue_length =
     (if lock_held s then None
      else
        let s0 = s\<lparr>lock_held := True\<rparr>;
            (current_workers, w1) = get_active_workers env s0 w
        in if tasks_per_worker cfg = 0
           then Some (Some ZeroDivisionError, s0\<lparr>lock_held := False\<rparr>, w1)
           else
             let desired = desired_workers cfg queue_length
             in if \<not> should_scale cfg s0 w1 desired current_workers
                then Some (None, s0\<lparr>lock_held := False\<rparr>, w1)
                else if current_workers < desired
                then (let (s1, w2) = scale_up cfg env s0 w1 (desired - current_workers)
                      in Some (None, s1\<lparr>lock_held := False\<rparr>, w2))
                else if current_workers > desired
                then (let (s1, w2) = scale_down env s0 w1 (current_workers - desired)
                      in Some (None, s1\<lparr>lock_held := False\<rparr>, w2))
                else Some (None, s0\<lparr>lock_held := False\<rparr>, w1))"

subsection \<open>Shutdown\<close>

fun cleanup_loop :: "environment \<Rightarrow> (string \<times> nat) list \<Rightarrow> world \<Rightarrow> world" where
  "cleanup_loop env [] w = w"
| "cleanup_loop env ((worker_name, process) # items) w =
     (let w1 = terminate env process w;
          (r, w2) = wait process 5 w1;
          w3 = (case r of Some e \<Rightarrow> kill process w2 | None \<Rightarrow> w2)
      in cleanup_loop env items w3)"

definition cleanup :: "environment \<Rightarrow> scaler \<Rightarrow> world \<Rightarrow> scaler \<times> world" where
  "cleanup env s w =
     (let w0 = log INFO ''Cleaning up resources...'' w;
          s1 = s\<lparr>running := False\<rparr>
      in (s1, cleanup_loop env (worker_processes s1) w0))"

definition handle_sigterm :: "environment \<Rightarrow> scaler \<Rightarrow> world \<Rightarrow> scaler \<times> world" where
  \<comment> \<open>\<^verbatim>\<open>cleanup()\<close>, then \<^verbatim>\<open>exit(0)\<close>, on which the interpreter runs the hook that
      \<^verbatim>\<open>__init__\<close> registered with \<^verbatim>\<open>atexit\<close>: \<^verbatim>\<open>cleanup\<close> once more.\<close>
  "handle_sigterm env s w =
     (let (s1, w1) = cleanup env s (log INFO ''Received signal'' w)
      in cleanup env s1 w1)"

subsection \<open>The control loop\<close>

text \<open>
  One pass through the body of \<^verbatim>\<open>while self.running\<close>. The \<^verbatim>\<open>try\<close> block swallows every
  exception; only the final \<^verbatim>\<open>time.sleep\<close> stands outside it. \<open>None\<close> is a tick that
  never returns.
\<close>

definition run_tick ::
  "ScalingConfig \<Rightarrow> environment \<Rightarrow> scaler \<Rightarrow> world \<Rightarrow> (exn option \<times> scaler \<times> world) option" where
  "run_tick cfg env s w =
     (let (queue_length, w1) = get_queue_length env ''celery'' w;
          (current_workers, w2) = get_active_workers env s w1;
          w3 = log INFO ''Status'' w2
      in case scale_workers cfg env s w3 queue_length of
           None \<Rightarrow> None
         | Some (r, s1, w4) \<Rightarrow>
             (let (s2, w5) =
                (case r of
                   Some e \<Rightarrow> (s1, log ERROR ''Error in main loop'' w4)
                 | None \<Rightarrow>
                     if current_workers < min_workers cfg
                     then scale_up cfg env s1 (log WARNING ''Worker count below minimum threshold'' w4)
                            (min_workers cfg - current_workers)
                     else (s1, w4));
                  (r', w6) = py_sleep (check_interval cfg) w5
              in Some (r', s2, w6)))"

fun run_loop ::
  "ScalingConfig \<Rightarrow> environment \<Rightarrow> nat \<Rightarrow> scaler \<Rightarrow> world \<Rightarrow> (exn option \<times> scaler \<times> world) option" where
  \<comment> \<open>The \<^verbatim>\<open>while\<close> loop of \<^verbatim>\<open>run\<close>, for at most the given number of ticks.\<close>
  "run_loop cfg env 0 s w = Some (None, s, w)"
| "run_loop cfg env (Suc n) s w =
     (if running s
      then (case run_tick cfg env s w of
              None \<Rightarrow> None
            | Some (Some e, s1, w1) \<Rightarrow> Some (Some e, s1, w1)
            | Some (None, s1, w1) \<Rightarrow> run_loop cfg env n s1 w1)
      else Some (None, s, w))"

definition run :: "ScalingConfig \<Rightarrow> environment \<Rightarrow> nat \<Rightarrow> scaler \<Rightarrow> world \<Rightarrow> (exn option \<times> scaler \<times> world) option" where
  "run cfg env n s w =
     run_loop cfg env n (s\<lparr>running := True\<rparr>) (log INFO ''Starting Celery auto-scaler...'' w)"

subsection \<open>The policy in the words of the specification\<close>

text \<open>
  These three definitions follow the specification, not the source; the theorems below
  compare them with \<open>desired_workers\<close> and \<open>should_scale\<close>.
\<close>

definition clamp :: "int \<Rightarrow> int \<Rightarrow> int \<Rightarrow> int" where
  "clamp x lo hi = max lo (min hi x)"

definition desiredWorkers_spec :: "int \<Rightarrow> int \<Rightarrow> int \<Rightarrow> int \<Rightarrow> int" where
  "desiredWorkers_spec queueLength tasksPerWorker lo hi =
     clamp (\<lceil>real_of_int queueLength / real_of_int tasksPerWorker\<rceil> + 1) lo hi"

definition deadband_spec :: "int \<Rightarrow> int" where
  "deadband_spec current = max 2 (round (real_of_int current * 0.2))"

subsection \<open>Inputs for the concrete instances\<close>

definition quiet_env :: environment where
  \<comment> \<open>Redis answers 0, the worker census is unavailable, every launch succeeds and every
      process heeds SIGTERM.\<close>
  "quiet_env =
     \<lparr>llen_reply = (\<lambda>queue n. Inr 0), inspect_reply = (\<lambda>n. Inr None),
      uuid_reply = (\<lambda>n. if n = 0 then ''0a1b2c3d'' else if n = 1 then ''1b2c3d4e'' else ''2c3d4e5f''),
      hostname = ''host'',
      popen_reply = (\<lambda>n. None), heeds_term = (\<lambda>p. True)\<rparr>"

definition world_at :: "int \<Rightarrow> world" where
  \<comment> \<open>A world with the clock at the given time, no process and no call made so far.\<close>
  "world_at t =
     \<lparr>clock = t, llen_calls = 0, inspect_calls = 0, uuid_calls = 0, popen_calls = 0,
      alive = (\<lambda>p. False), exiting = (\<lambda>p. False), trace = []\<rparr>"

definition fresh_scaler :: scaler where
  \<comment> \<open>A running scaler without workers whose last scaling was at time 0.\<close>
  "fresh_scaler = \<lparr>last_scale_time = 0, running = True, worker_processes = [], lock_held = False\<rparr>"

definition stubborn_env :: environment where
  \<comment> \<open>As \<open>quiet_env\<close>, but no process heeds SIGTERM.\<close>
  "stubborn_env = quiet_env\<lparr>heeds_term := (\<lambda>p. False)\<rparr>"

definition failing_env :: environment where
  \<comment> \<open>As \<open>quiet_env\<close>, but every \<^verbatim>\<open>Popen\<close> raises.\<close>
  "failing_env = quiet_env\<lparr>popen_reply := (\<lambda>n. Some OSError)\<rparr>"

definition one_worker :: scaler where
  \<comment> \<open>A scaler tracking one worker, process 0.\<close>
  "one_worker = fresh_scaler\<lparr>worker_processes := [(''w0'', 0)]\<rparr>"

definition busy_world :: world where
  \<comment> \<open>A world in which process 0 has been launched and is running.\<close>
  "busy_world = (world_at 0)\<lparr>popen_calls := 1, alive := (\<lambda>p. p = 0)\<rparr>"

section \<open>Properties of the scaling policy\<close>

subsection \<open>Arithmetic of the deadband and of the cooldown test\<close>

text \<open>
  The source multiplies by the binary64 constant \<^verbatim>\<open>0.2\<close>, which exceeds one fifth by
  a factor of \<open>1 + 2\<^sup>-\<^sup>5\<^sup>4\<close>. For a worker count \<open>c\<close> with \<open>0 \<le> c < 2\<^sup>5\<^sup>0\<close> the count is
  itself a binary64 number, the exact product lies within \<open>1/80\<close> above \<open>c/5\<close>, and rounding
  it to binary64 moves it by at most \<open>1/64\<close> without crossing an integer: the truncated
  float product equals the truncated exact product, which is what \<open>py_int\<close> is applied to
  here. Beyond that range the two differ for some counts. For a count that is not negative
  the truncation of the exact product is the integer quotient by five.
\<close>

lemma py_int_fifth: "0 \<le> c \<Longrightarrow> py_int (of_int c * 0.2) = c div 5"
proof -
  assume c: "0 \<le> c"
  have "(of_int c * 0.2 :: real) = of_int c / of_int 5" by simp
  then have "\<lfloor>of_int c * 0.2 :: real\<rfloor> = c div 5"
    using floor_divide_of_int_eq [of c 5, where ?'a = real] by simp
  with c show ?thesis by (simp add: py_int_def)
qed

lemma timedelta_seconds_mod_day:
  "timedelta_seconds us = (us mod 86400000000) div 1000000"
proof -
  have "us mod (1000000 * 86400) = 1000000 * (us div 1000000 mod 86400) + us mod 1000000"
    by (rule zmod_zmult2_eq) simp
  then have "(us mod 86400000000) div 1000000
               = (1000000 * (us div 1000000 mod 86400) + us mod 1000000) div 1000000"
    by simp
  also have "\<dots> = us div 1000000 mod 86400"
    by simp
  finally show ?thesis by (simp add: timedelta_seconds_def)
qed

lemma cooldown_test_iff:
  "timedelta_seconds us < cd \<longleftrightarrow> us mod 86400000000 < cd * 1000000"
  unfolding timedelta_seconds_mod_day by linarith

lemma should_scale_cooldown:
  "(clock w - last_scale_time s) mod 86400000000 < cooldown_period cfg * 1000000 \<Longrightarrow>
   \<not> should_scale cfg s w d c"
  by (simp add: should_scale_def cooldown_test_iff)

subsection \<open>C1: the desired number of workers\<close>

text \<open>
  C1 states that for a queue length of at least 0, at least one task per worker and bounds
  with \<open>0 < min \<le> max\<close>, \<^verbatim>\<open>scale_workers\<close> computes
  \<open>clamp(ceil(queueLength / tasksPerWorker) + 1, min, max)\<close>. The source divides with
  \<^verbatim>\<open>//\<close>, which rounds down: with 3 queued tasks, 2 tasks per worker and bounds 1 and 50
  it computes 2, where the rounded-up quotient plus one is 3.
\<close>

theorem C1_ceil_counterexample:
  "(0::int) \<le> 3 \<and> (1::int) \<le> 2 \<and> (0::int) < 1 \<and> (1::int) \<le> 50 \<and>
   desired_workers
     (default_config\<lparr>min_workers := 1, max_workers := 50, tasks_per_worker := 2\<rparr>) 3 = 2 \<and>
   desiredWorkers_spec 3 2 1 50 = 3"
  by (simp add: desired_workers_def desiredWorkers_spec_def clamp_def default_config_def)

text \<open>
  C1, amended: under the same conditions the computation returns
  \<open>clamp(floor(queueLength / tasksPerWorker) + 1, min, max)\<close>.
\<close>

theorem C1_desired_workers_floor:
  assumes "0 \<le> q" and "1 \<le> tasks_per_worker cfg"
    and "0 < min_workers cfg" and "min_workers cfg \<le> max_workers cfg"
  shows "desired_workers cfg q =
           clamp (\<lfloor>real_of_int q / real_of_int (tasks_per_worker cfg)\<rfloor> + 1)
             (min_workers cfg) (max_workers cfg)"
  by (simp add: desired_workers_def clamp_def floor_divide_of_int_eq)

theorem C1_desired_workers_floor_witness:
  "desired_workers
     (default_config\<lparr>min_workers := 1, max_workers := 50, tasks_per_worker := 2\<rparr>) 3
   = clamp (\<lfloor>real_of_int 3 / real_of_int 2\<rfloor> + 1) 1 50
   \<and> clamp (\<lfloor>real_of_int 3 / real_of_int 2\<rfloor> + 1) 1 50 = 2"
  using C1_desired_workers_floor
    [of 3 "default_config\<lparr>min_workers := 1, max_workers := 50, tasks_per_worker := 2\<rparr>"]
  by (simp add: default_config_def clamp_def)

subsection \<open>C4: the deadband\<close>

text \<open>
  C4 states that once the cooldown period has elapsed, \<^verbatim>\<open>should_scale\<close> returns true only
  if \<open>|desired - current| \<ge> max(2, round(current * 0.2))\<close>. The source truncates with
  \<^verbatim>\<open>int\<close>: with 13 workers, 15 desired and 60 seconds since the last scaling it returns
  true on a difference of 2, where the rounded fifth of 13 is 3.
\<close>

theorem C4_round_counterexample:
  "cooldown_period default_config * 1000000
     \<le> clock (world_at 60000000) - last_scale_time fresh_scaler \<and>
   should_scale default_config fresh_scaler (world_at 60000000) 15 13 \<and>
   \<not> \<bar>15 - 13\<bar> \<ge> deadband_spec 13"
  by (simp add: should_scale_def default_config_def fresh_scaler_def world_at_def
      timedelta_seconds_def py_int_def deadband_spec_def round_def)

text \<open>
  C4, amended: for a current worker count with \<open>0 \<le> current < 2\<^sup>5\<^sup>0\<close>, once the cooldown
  period has elapsed, \<^verbatim>\<open>should_scale\<close> returns true only if
  \<open>|desired - current| \<ge> max(2, int(current * 0.2))\<close>, where \<^verbatim>\<open>int\<close> truncates towards
  zero, so that \<open>int(current * 0.2)\<close> is the integer quotient of \<open>current\<close> by 5. (The
  implication holds whatever time has elapsed.)
\<close>

theorem C4_deadband_truncated:
  assumes "0 \<le> current" and "current < 2 ^ 50"
    and "cooldown_period cfg * 1000000 \<le> clock w - last_scale_time s"
    and "should_scale cfg s w desired current"
  shows "\<bar>desired - current\<bar> \<ge> max 2 (py_int (of_int current * 0.2)) \<and>
         py_int (of_int current * 0.2) = current div 5"
  using assms(4) py_int_fifth [OF assms(1)]
  by (simp add: should_scale_def Let_def split: if_splits)

theorem C4_deadband_truncated_witness:
  "(0::int) \<le> 13 \<and> (13::int) < 2 ^ 50 \<and>
   cooldown_period default_config * 1000000
     \<le> clock (world_at 60000000) - last_scale_time fresh_scaler \<and>
   should_scale default_config fresh_scaler (world_at 60000000) 15 13 \<and>
   \<bar>15 - 13\<bar> \<ge> max 2 (py_int (of_int 13 * 0.2)) \<and>
   py_int (of_int 13 * 0.2) = 2"
proof -
  have r: "(0::int) \<le> 13" "(13::int) < 2 ^ 50" by simp_all
  have a: "cooldown_period default_config * 1000000
             \<le> clock (world_at 60000000) - last_scale_time fresh_scaler"
    by (simp add: default_config_def fresh_scaler_def world_at_def)
  have b: "should_scale default_config fresh_scaler (world_at 60000000) 15 13"
    by (simp add: should_scale_def default_config_def fresh_scaler_def world_at_def
        timedelta_seconds_def py_int_def)
  from C4_deadband_truncated [OF r a b] r a b show ?thesis by simp
qed

subsection \<open>C6: a failed read of the queue length\<close>

text \<open>
  C6: for every queue name, whenever the read of the counter store fails, with a
  \<^verbatim>\<open>RedisError\<close> or with any other exception, \<^verbatim>\<open>get_queue_length\<close> returns 0; it has no way of raising (its result
  is a number, not a sum with an exception).
\<close>

theorem C6_queue_length_zero_on_failure:
  assumes "llen_reply env queue_name (llen_calls w) = Inl e"
  shows "fst (get_queue_length env queue_name w) = 0"
  using assms by (simp add: get_queue_length_def Let_def)

theorem C6_queue_length_zero_on_failure_witness:
  "llen_reply (quiet_env\<lparr>llen_reply := (\<lambda>queue n. Inl OtherException)\<rparr>) ''celery''
     (llen_calls (world_at 0)) = Inl OtherException \<and>
   fst (get_queue_length (quiet_env\<lparr>llen_reply := (\<lambda>queue n. Inl OtherException)\<rparr>) ''celery''
          (world_at 0)) = 0"
  using C6_queue_length_zero_on_failure
    [of "quiet_env\<lparr>llen_reply := (\<lambda>queue n. Inl OtherException)\<rparr>" "''celery''" "world_at 0"
       OtherException]
  by simp

subsection \<open>C9: the cooldown test reads only the seconds within the day\<close>

text \<open>
  C9: \<^verbatim>\<open>should_scale\<close> compares \<^verbatim>\<open>timedelta.seconds\<close> of \<open>now - last_scale_time\<close> with
  the cooldown period. So it returns false whenever the elapsed time modulo 24 hours is
  below the cooldown period: for every elapsed time below the cooldown period, and also
  for an elapsed time of \<open>N\<close> days plus a time \<open>t\<close> below the cooldown period.
\<close>

theorem C9_cooldown_modulo_day:
  "((clock w - last_scale_time s) mod 86400000000 < cooldown_period cfg * 1000000
      \<longrightarrow> \<not> should_scale cfg s w d c) \<and>
   (0 \<le> clock w - last_scale_time s \<and> clock w - last_scale_time s < cooldown_period cfg * 1000000
      \<longrightarrow> \<not> should_scale cfg s w d c) \<and>
   (\<forall>N t. 0 \<le> N \<and> 0 \<le> t \<and> t < cooldown_period cfg * 1000000 \<and>
          clock w - last_scale_time s = N * 86400000000 + t
      \<longrightarrow> \<not> should_scale cfg s w d c)"
proof (intro conjI impI allI)
  assume "(clock w - last_scale_time s) mod 86400000000 < cooldown_period cfg * 1000000"
  then show "\<not> should_scale cfg s w d c" by (rule should_scale_cooldown)
next
  assume h: "0 \<le> clock w - last_scale_time s \<and>
             clock w - last_scale_time s < cooldown_period cfg * 1000000"
  have "(clock w - last_scale_time s) mod 86400000000 \<le> clock w - last_scale_time s"
    using h by (simp add: zmod_le_nonneg_dividend)
  with h show "\<not> should_scale cfg s w d c"
    by (intro should_scale_cooldown) linarith
next
  fix N t :: int
  assume h: "0 \<le> N \<and> 0 \<le> t \<and> t < cooldown_period cfg * 1000000 \<and>
             clock w - last_scale_time s = N * 86400000000 + t"
  then have "(clock w - last_scale_time s) mod 86400000000 = t mod 86400000000"
    by simp
  moreover have "t mod 86400000000 \<le> t"
    using h by (simp add: zmod_le_nonneg_dividend)
  ultimately show "\<not> should_scale cfg s w d c"
    using h by (intro should_scale_cooldown) linarith
qed

theorem C9_cooldown_modulo_day_witness:
  "\<not> should_scale default_config fresh_scaler (world_at 10000000) 48 3 \<and>
   \<not> should_scale default_config fresh_scaler (world_at (2 * 86400000000 + 10000000)) 48 3 \<and>
   should_scale default_config fresh_scaler (world_at 60000000) 48 3"
proof -
  have a: "\<not> should_scale default_config fresh_scaler (world_at 10000000) 48 3"
    using C9_cooldown_modulo_day [of "world_at 10000000" fresh_scaler default_config 48 3]
    by (simp add: default_config_def fresh_scaler_def world_at_def)
  have "(0::int) \<le> 2 \<and> (0::int) \<le> 10000000 \<and>
        10000000 < cooldown_period default_config * 1000000 \<and>
        clock (world_at (2 * 86400000000 + 10000000)) - last_scale_time fresh_scaler
          = 2 * 86400000000 + 10000000"
    by (simp add: default_config_def fresh_scaler_def world_at_def)
  with C9_cooldown_modulo_day
    [of "world_at (2 * 86400000000 + 10000000)" fresh_scaler default_config 48 3]
  have b: "\<not> should_scale default_config fresh_scaler (world_at (2 * 86400000000 + 10000000)) 48 3"
    by blast
  have c: "should_scale default_config fresh_scaler (world_at 60000000) 48 3"
    by (simp add: should_scale_def default_config_def fresh_scaler_def world_at_def
        timedelta_seconds_def py_int_def)
  from a b c show ?thesis by simp
qed

section \<open>Properties of the worker lifecycle\<close>

subsection \<open>C7: the two threshold options are never read\<close>

lemma generate_worker_name_thresholds:
  "generate_worker_name (cfg\<lparr>scale_up_threshold := a, scale_down_threshold := b\<rparr>) env w
     = generate_worker_name cfg env w"
  by (simp add: generate_worker_name_def)

lemma spawn_loop_thresholds:
  "spawn_loop (cfg\<lparr>scale_up_threshold := a, scale_down_threshold := b\<rparr>) env n s w
     = spawn_loop cfg env n s w"
  by (induction n arbitrary: s w)
    (simp_all add: generate_worker_name_thresholds split: prod.splits sum.splits)

lemma scale_up_thresholds:
  "scale_up (cfg\<lparr>scale_up_threshold := a, scale_down_threshold := b\<rparr>) env s w n
     = scale_up cfg env s w n"
  by (simp add: scale_up_def spawn_loop_thresholds Let_def split: prod.splits option.splits)

lemma should_scale_thresholds:
  "should_scale (cfg\<lparr>scale_up_threshold := a, scale_down_threshold := b\<rparr>) s w d c
     = should_scale cfg s w d c"
  by (simp add: should_scale_def)

lemma desired_workers_thresholds:
  "desired_workers (cfg\<lparr>scale_up_threshold := a, scale_down_threshold := b\<rparr>) q
     = desired_workers cfg q"
  by (simp add: desired_workers_def)

lemma scale_workers_thresholds:
  "scale_workers (cfg\<lparr>scale_up_threshold := a, scale_down_threshold := b\<rparr>) env s w q
     = scale_workers cfg env s w q"
  by (simp add: scale_workers_def scale_up_thresholds should_scale_thresholds
      desired_workers_thresholds Let_def split: prod.splits)

text \<open>
  C7: two configurations that differ only in \<^verbatim>\<open>scale_up_threshold\<close> and
  \<^verbatim>\<open>scale_down_threshold\<close> give the same answer of \<^verbatim>\<open>should_scale\<close> and the same
  outcome of \<^verbatim>\<open>scale_workers\<close> (result, scaler state, and world with its trace of calls)
  on every input.
\<close>

theorem C7_thresholds_inert:
  assumes "cfg2 = cfg1\<lparr>scale_up_threshold := scale_up_threshold cfg2,
                        scale_down_threshold := scale_down_threshold cfg2\<rparr>"
  shows "should_scale cfg2 s w d c = should_scale cfg1 s w d c \<and>
         scale_workers cfg2 env s w q = scale_workers cfg1 env s w q"
proof -
  have "should_scale cfg2 s w d c = should_scale cfg1 s w d c"
    by (subst assms) (rule should_scale_thresholds)
  moreover have "scale_workers cfg2 env s w q = scale_workers cfg1 env s w q"
    by (subst assms) (rule scale_workers_thresholds)
  ultimately show ?thesis by simp
qed

theorem C7_thresholds_inert_witness:
  "should_scale (default_config\<lparr>scale_up_threshold := 0.5, scale_down_threshold := 0.1\<rparr>)
     fresh_scaler (world_at 60000000) 48 3
     = should_scale default_config fresh_scaler (world_at 60000000) 48 3 \<and>
   scale_workers (default_config\<lparr>scale_up_threshold := 0.5, scale_down_threshold := 0.1\<rparr>)
     quiet_env fresh_scaler (world_at 60000000) 47
     = scale_workers default_config quiet_env fresh_scaler (world_at 60000000) 47 \<and>
   default_config\<lparr>scale_up_threshold := 0.5, scale_down_threshold := 0.1\<rparr> \<noteq> default_config"
proof -
  have h: "default_config\<lparr>scale_up_threshold := 0.5, scale_down_threshold := 0.1\<rparr> =
        default_config\<lparr>scale_up_threshold :=
            scale_up_threshold (default_config\<lparr>scale_up_threshold := 0.5, scale_down_threshold := 0.1\<rparr>),
          scale_down_threshold :=
            scale_down_threshold (default_config\<lparr>scale_up_threshold := 0.5, scale_down_threshold := 0.1\<rparr>)\<rparr>"
    by simp
  have d: "default_config\<lparr>scale_up_threshold := 0.5, scale_down_threshold := 0.1\<rparr> \<noteq> default_config"
    by (simp add: default_config_def)
  from C7_thresholds_inert [OF h] d show ?thesis by blast
qed

subsection \<open>Launching and stopping processes\<close>

lemma generate_worker_name_frame:
  "generate_worker_name cfg env w = (name, w') \<Longrightarrow>
   clock w' = clock w \<and> popen_calls w' = popen_calls w \<and> alive w' = alive w"
  by (auto simp: generate_worker_name_def)

lemma spawn_loop_frame:
  "spawn_loop cfg env n s w = (r, s', w') \<Longrightarrow>
   clock w' = clock w \<and> last_scale_time s' = last_scale_time s \<and> lock_held s' = lock_held s"
proof (induction n arbitrary: s w)
  case 0
  then show ?case by simp
next
  case (Suc n)
  then show ?case
    by (auto simp: generate_worker_name_def popen_def Let_def split: option.splits prod.splits sum.splits)
qed

lemma spawn_loop_Suc_launched:
  assumes "popen_reply env (popen_calls w) = None"
  shows "spawn_loop cfg env (Suc n) s w =
           spawn_loop cfg env n
             (s\<lparr>worker_processes :=
                  dict_set (fst (generate_worker_name cfg env w)) (popen_calls w) (worker_processes s)\<rparr>)
             (w\<lparr>uuid_calls := Suc (uuid_calls w), popen_calls := Suc (popen_calls w),
                trace := trace w @ [Popen (fst (generate_worker_name cfg env w))],
                alive := (alive w)(popen_calls w := True),
                exiting := (exiting w)(popen_calls w := False)\<rparr>)"
  using assms by (simp add: generate_worker_name_def popen_def Let_def)

lemma spawn_loop_launches:
  assumes "\<forall>i. popen_reply env i = None"
  shows "spawn_loop cfg env n s w = (r, s', w') \<Longrightarrow>
         r = None \<and> popen_calls w' = popen_calls w + n \<and>
         (\<forall>p. alive w' p \<longleftrightarrow> alive w p \<or> (popen_calls w \<le> p \<and> p < popen_calls w + n))"
proof (induction n arbitrary: s w)
  case 0
  then show ?case by auto
next
  case (Suc n)
  from Suc.prems assms have
    "spawn_loop cfg env n
       (s\<lparr>worker_processes :=
            dict_set (fst (generate_worker_name cfg env w)) (popen_calls w) (worker_processes s)\<rparr>)
       (w\<lparr>uuid_calls := Suc (uuid_calls w), popen_calls := Suc (popen_calls w),
          trace := trace w @ [Popen (fst (generate_worker_name cfg env w))],
          alive := (alive w)(popen_calls w := True),
          exiting := (exiting w)(popen_calls w := False)\<rparr>) = (r, s', w')"
    by (simp only: spawn_loop_Suc_launched)
  from Suc.IH [OF this] show ?case by auto
qed


lemma wait_after_terminate:
  "wait p 5 (terminate env p w) =
     (if alive w p \<and> \<not> exiting w p \<and> \<not> heeds_term env p
      then (Some TimeoutExpired,
            w\<lparr>clock := clock w + 5000000, trace := trace w @ [Terminate p, Wait p 5]\<rparr>)
      else (None,
            w\<lparr>alive := (alive w)(p := False),
              exiting := (if heeds_term env p then (exiting w)(p := True) else exiting w),
              trace := trace w @ [Terminate p, Wait p 5]\<rparr>))"
  by (simp add: wait_def terminate_def)

lemma dict_del_tracked:
  "(name, p) \<in> set d \<Longrightarrow> dict_del name d = Inr (filter (\<lambda>(k, v). k \<noteq> name) d)"
  by (force simp: dict_del_def dict_keys_def)

lemma stop_worker_graceful:
  assumes "(name, p) \<in> set (worker_processes s)"
    and "\<not> (alive w p \<and> \<not> exiting w p \<and> \<not> heeds_term env p)"
  shows "stop_worker env (name, p) s w =
           (None,
            s\<lparr>worker_processes := filter (\<lambda>(k, v). k \<noteq> name) (worker_processes s)\<rparr>,
            w\<lparr>alive := (alive w)(p := False),
              exiting := (if heeds_term env p then (exiting w)(p := True) else exiting w),
              trace := trace w @ [Terminate p, Wait p 5, Untrack name]\<rparr>)"
  using assms(2) dict_del_tracked [OF assms(1)]
  by (auto simp: stop_worker_def wait_after_terminate)

lemma stop_worker_forced:
  assumes "(name, p) \<in> set (worker_processes s)"
    and "alive w p \<and> \<not> exiting w p \<and> \<not> heeds_term env p"
  shows "stop_worker env (name, p) s w =
           (None,
            s\<lparr>worker_processes := filter (\<lambda>(k, v). k \<noteq> name) (worker_processes s)\<rparr>,
            w\<lparr>clock := clock w + 5000000,
              exiting := (exiting w)(p := True),
              trace := trace w @ [Terminate p, Wait p 5, Kill p, Untrack name]\<rparr>)"
  using assms(2) dict_del_tracked [OF assms(1)]
  by (auto simp: stop_worker_def wait_after_terminate kill_def)

lemma filter_other_names:
  assumes "distinct (map fst d)" and "(name, p) \<in> set d" and "x \<in> set d" and "x \<noteq> (name, p)"
  shows "x \<in> set (filter (\<lambda>(k, v). k \<noteq> name) d)"
proof -
  have "fst x \<noteq> name"
    using assms by (metis eq_key_imp_eq_value prod.collapse)
  with assms(3) show ?thesis by (auto simp: case_prod_unfold)
qed

subsection \<open>C3: removing a handle in scale_down\<close>

text \<open>
  C3 states that the per-worker path of \<^verbatim>\<open>scale_down\<close> removes the handle from the
  worker map only after the process is confirmed gone, gracefully or by force, so that a
  handle is never dropped while its process might still be running. On the forced path
  the source goes from \<^verbatim>\<open>process.kill()\<close> straight to \<^verbatim>\<open>del\<close>, with no \<^verbatim>\<open>wait\<close> or
  \<^verbatim>\<open>poll\<close> in between: for a running process that does not heed SIGTERM the handle
  is removed while no call has seen the process exit.
\<close>

theorem C3_forced_path_counterexample:
  "alive busy_world 0 \<and> \<not> heeds_term stubborn_env 0 \<and>
   fst (stop_worker stubborn_env (''w0'', 0) one_worker busy_world) = None \<and>
   worker_processes (fst (snd (stop_worker stubborn_env (''w0'', 0) one_worker busy_world))) = [] \<and>
   alive (snd (snd (stop_worker stubborn_env (''w0'', 0) one_worker busy_world))) 0 \<and>
   trace (snd (snd (stop_worker stubborn_env (''w0'', 0) one_worker busy_world)))
     = [Terminate 0, Wait 0 5, Kill 0, Untrack ''w0'']"
  by (simp add: stop_worker_def wait_after_terminate kill_def dict_del_def dict_keys_def
      one_worker_def fresh_scaler_def busy_world_def world_at_def stubborn_env_def quiet_env_def)

text \<open>
  C3, amended: for every tracked handle, the per-worker path of \<^verbatim>\<open>scale_down\<close> sends a
  graceful-stop signal, waits up to five seconds, sends a forced kill exactly when the
  wait timed out, and removes the handle (and no other) from the worker map as its last
  step, after these calls. When the wait returned, the removal comes after the exit of the
  process has been seen. When the wait timed out, the removal comes right after the kill
  signal has been sent: nothing has confirmed that the process is gone.
\<close>

theorem C3_handle_removed_last:
  assumes "distinct (map fst (worker_processes s))" and "(name, p) \<in> set (worker_processes s)"
  shows "\<exists>s' w'. stop_worker env (name, p) s w = (None, s', w') \<and>
           (name, p) \<notin> set (worker_processes s') \<and>
           (\<forall>x \<in> set (worker_processes s). x \<noteq> (name, p) \<longrightarrow> x \<in> set (worker_processes s')) \<and>
           (if alive w p \<and> \<not> exiting w p \<and> \<not> heeds_term env p
            then trace w' = trace w @ [Terminate p, Wait p 5, Kill p, Untrack name] \<and>
                 alive w' p \<and> exiting w' p
            else trace w' = trace w @ [Terminate p, Wait p 5, Untrack name] \<and>
                 \<not> alive w' p)"
proof (cases "alive w p \<and> \<not> exiting w p \<and> \<not> heeds_term env p")
  case True
  let ?s' = "s\<lparr>worker_processes := filter (\<lambda>(k, v). k \<noteq> name) (worker_processes s)\<rparr>"
  let ?w' = "w\<lparr>clock := clock w + 5000000, exiting := (exiting w)(p := True),
              trace := trace w @ [Terminate p, Wait p 5, Kill p, Untrack name]\<rparr>"
  have "stop_worker env (name, p) s w = (None, ?s', ?w')"
    by (rule stop_worker_forced [OF assms(2) True])
  moreover have "(name, p) \<notin> set (worker_processes ?s')" by simp
  moreover have "\<forall>x \<in> set (worker_processes s). x \<noteq> (name, p) \<longrightarrow> x \<in> set (worker_processes ?s')"
    using filter_other_names [OF assms] by simp
  moreover have "trace ?w' = trace w @ [Terminate p, Wait p 5, Kill p, Untrack name] \<and>
                 alive ?w' p \<and> exiting ?w' p"
    using True by simp
  ultimately show ?thesis using True by (intro exI [of _ ?s'] exI [of _ ?w']) simp
next
  case False
  let ?s' = "s\<lparr>worker_processes := filter (\<lambda>(k, v). k \<noteq> name) (worker_processes s)\<rparr>"
  let ?w' = "w\<lparr>alive := (alive w)(p := False),
              exiting := (if heeds_term env p then (exiting w)(p := True) else exiting w),
              trace := trace w @ [Terminate p, Wait p 5, Untrack name]\<rparr>"
  have "stop_worker env (name, p) s w = (None, ?s', ?w')"
    by (rule stop_worker_graceful [OF assms(2) False])
  moreover have "(name, p) \<notin> set (worker_processes ?s')" by simp
  moreover have "\<forall>x \<in> set (worker_processes s). x \<noteq> (name, p) \<longrightarrow> x \<in> set (worker_processes ?s')"
    using filter_other_names [OF assms] by simp
  moreover have "trace ?w' = trace w @ [Terminate p, Wait p 5, Untrack name] \<and> \<not> alive ?w' p"
    by simp
  ultimately show ?thesis using False by (intro exI [of _ ?s'] exI [of _ ?w']) simp
qed

theorem C3_handle_removed_last_witness:
  "distinct (map fst (worker_processes one_worker)) \<and>
   (''w0'', 0) \<in> set (worker_processes one_worker) \<and>
   alive busy_world 0 \<and> \<not> exiting busy_world 0 \<and>
   heeds_term quiet_env 0 \<and> \<not> heeds_term stubborn_env 0 \<and>
   (\<exists>s' w'. stop_worker quiet_env (''w0'', 0) one_worker busy_world = (None, s', w') \<and>
       (''w0'', 0) \<notin> set (worker_processes s') \<and>
       trace w' = [Terminate 0, Wait 0 5, Untrack ''w0''] \<and> \<not> alive w' 0) \<and>
   (\<exists>s' w'. stop_worker stubborn_env (''w0'', 0) one_worker busy_world = (None, s', w') \<and>
       (''w0'', 0) \<notin> set (worker_processes s') \<and>
       trace w' = [Terminate 0, Wait 0 5, Kill 0, Untrack ''w0''] \<and> alive w' 0)"
proof -
  have a: "distinct (map fst (worker_processes one_worker))"
    by (simp add: one_worker_def)
  have b: "(''w0'', 0) \<in> set (worker_processes one_worker)"
    by (simp add: one_worker_def)
  have c: "alive busy_world 0" "\<not> exiting busy_world 0" "heeds_term quiet_env 0"
    "\<not> heeds_term stubborn_env 0" "trace busy_world = []"
    by (simp_all add: busy_world_def quiet_env_def stubborn_env_def world_at_def)
  from C3_handle_removed_last [OF a b, of quiet_env busy_world]
  have g: "\<exists>s' w'. stop_worker quiet_env (''w0'', 0) one_worker busy_world = (None, s', w') \<and>
       (''w0'', 0) \<notin> set (worker_processes s') \<and>
       trace w' = [Terminate 0, Wait 0 5, Untrack ''w0''] \<and> \<not> alive w' 0"
    using c by auto
  from C3_handle_removed_last [OF a b, of stubborn_env busy_world]
  have f: "\<exists>s' w'. stop_worker stubborn_env (''w0'', 0) one_worker busy_world = (None, s', w') \<and>
       (''w0'', 0) \<notin> set (worker_processes s') \<and>
       trace w' = [Terminate 0, Wait 0 5, Kill 0, Untrack ''w0''] \<and> alive w' 0"
    using c by auto
  from a b c g f show ?thesis by simp
qed

subsection \<open>C2: calling cleanup twice\<close>

lemma cleanup_loop_Cons:
  "cleanup_loop env ((name, p) # items) w =
     cleanup_loop env items
       (if alive w p \<and> \<not> exiting w p \<and> \<not> heeds_term env p
        then w\<lparr>clock := clock w + 5000000, exiting := (exiting w)(p := True),
               trace := trace w @ [Terminate p, Wait p 5, Kill p]\<rparr>
        else w\<lparr>alive := (alive w)(p := False),
               exiting := (if heeds_term env p then (exiting w)(p := True) else exiting w),
               trace := trace w @ [Terminate p, Wait p 5]\<rparr>)"
  by (simp add: wait_after_terminate kill_def)

text \<open>
  A process is settled once its exit has been seen or an ending signal has been sent to
  it. \<^verbatim>\<open>cleanup\<close> settles every process it handles, and a settled process stays settled.
\<close>

lemma cleanup_loop_settles:
  "(\<forall>x \<in> set items. \<not> alive (cleanup_loop env items w) (snd x) \<or>
                     exiting (cleanup_loop env items w) (snd x)) \<and>
   (\<forall>p. \<not> alive w p \<or> exiting w p \<longrightarrow>
        \<not> alive (cleanup_loop env items w) p \<or> exiting (cleanup_loop env items w) p)"
proof (induction items arbitrary: w)
  case Nil
  then show ?case by simp
next
  case (Cons item items)
  obtain name p where item: "item = (name, p)" by (cases item)
  show ?case
  proof (cases "alive w p \<and> \<not> exiting w p \<and> \<not> heeds_term env p")
    case True
    let ?w1 = "w\<lparr>clock := clock w + 5000000, exiting := (exiting w)(p := True),
                 trace := trace w @ [Terminate p, Wait p 5, Kill p]\<rparr>"
    have step: "cleanup_loop env (item # items) w = cleanup_loop env items ?w1"
      unfolding item cleanup_loop_Cons by (simp only: if_P [OF True])
    from Cons.IH [of ?w1] show ?thesis
      unfolding step by (simp add: item)
  next
    case False
    let ?w1 = "w\<lparr>alive := (alive w)(p := False),
                 exiting := (if heeds_term env p then (exiting w)(p := True) else exiting w),
                 trace := trace w @ [Terminate p, Wait p 5]\<rparr>"
    have step: "cleanup_loop env (item # items) w = cleanup_loop env items ?w1"
      unfolding item cleanup_loop_Cons by (simp only: if_not_P [OF False])
    from Cons.IH [of ?w1] show ?thesis
      unfolding step by (simp add: item)
  qed
qed

lemma cleanup_loop_settled_trace:
  "\<forall>x \<in> set items. \<not> alive w (snd x) \<or> exiting w (snd x) \<Longrightarrow>
   trace (cleanup_loop env items w) =
     trace w @ concat (map (\<lambda>(name, p). [Terminate p, Wait p 5]) items)"
proof (induction items arbitrary: w)
  case Nil
  then show ?case by simp
next
  case (Cons item items)
  obtain name p where item: "item = (name, p)" by (cases item)
  let ?w1 = "w\<lparr>alive := (alive w)(p := False),
               exiting := (if heeds_term env p then (exiting w)(p := True) else exiting w),
               trace := trace w @ [Terminate p, Wait p 5]\<rparr>"
  have settled: "\<not> (alive w p \<and> \<not> exiting w p \<and> \<not> heeds_term env p)"
    using Cons.prems item by auto
  have step: "cleanup_loop env (item # items) w = cleanup_loop env items ?w1"
    unfolding item cleanup_loop_Cons by (simp only: if_not_P [OF settled])
  have "\<forall>x \<in> set items. \<not> alive ?w1 (snd x) \<or> exiting ?w1 (snd x)"
    using Cons.prems by auto
  from Cons.IH [OF this] show ?case
    unfolding step by (simp add: item)
qed

text \<open>
  C2 states that calling \<^verbatim>\<open>cleanup\<close> twice in succession leaves the same empty worker
  set, signals no handle that was already removed, and raises no error. \<^verbatim>\<open>cleanup\<close>
  has no statement that removes a handle: with one tracked worker the map still holds it
  after both calls, and the second call has called \<^verbatim>\<open>terminate\<close> on it again.
\<close>

theorem C2_cleanup_not_emptied_counterexample:
  "worker_processes
     (fst (cleanup quiet_env (fst (cleanup quiet_env one_worker busy_world))
             (snd (cleanup quiet_env one_worker busy_world)))) = [(''w0'', 0)] \<and>
   trace (snd (cleanup quiet_env (fst (cleanup quiet_env one_worker busy_world))
             (snd (cleanup quiet_env one_worker busy_world))))
     = [Log INFO ''Cleaning up resources...'', Terminate 0, Wait 0 5,
        Log INFO ''Cleaning up resources...'', Terminate 0, Wait 0 5]"
  by (simp add: cleanup_def one_worker_def fresh_scaler_def busy_world_def world_at_def
      quiet_env_def log_def terminate_def wait_def kill_def)

text \<open>
  C2, amended: \<^verbatim>\<open>cleanup\<close> never removes a handle. Calling it twice in succession
  leaves the scaler as the first call left it, with the worker map as it was before the
  first call (empty only if it was empty then); the second call raises no error (the
  result of \<open>cleanup\<close> has no exception component) and calls \<^verbatim>\<open>terminate\<close> and
  \<^verbatim>\<open>wait\<close> once more on every tracked handle.
\<close>

theorem C2_cleanup_twice:
  "(let (s1, w1) = cleanup env s w; (s2, w2) = cleanup env s1 w1
    in s2 = s1 \<and> worker_processes s1 = worker_processes s \<and>
       trace w2 = trace w1 @ Log INFO ''Cleaning up resources...''
                    # concat (map (\<lambda>(name, p). [Terminate p, Wait p 5]) (worker_processes s)))"
proof -
  let ?w0 = "log INFO ''Cleaning up resources...'' w"
  let ?s1 = "s\<lparr>running := False\<rparr>"
  let ?w1 = "cleanup_loop env (worker_processes s) ?w0"
  let ?w1' = "log INFO ''Cleaning up resources...'' ?w1"
  have c1: "cleanup env s w = (?s1, ?w1)" by (simp add: cleanup_def)
  have c2: "cleanup env ?s1 ?w1 = (?s1, cleanup_loop env (worker_processes s) ?w1')"
    by (simp add: cleanup_def)
  have "\<forall>x \<in> set (worker_processes s). \<not> alive ?w1 (snd x) \<or> exiting ?w1 (snd x)"
    using cleanup_loop_settles [of "worker_processes s" env ?w0] by simp
  then have "\<forall>x \<in> set (worker_processes s). \<not> alive ?w1' (snd x) \<or> exiting ?w1' (snd x)"
    by (simp add: log_def)
  from cleanup_loop_settled_trace [OF this]
  have "trace (cleanup_loop env (worker_processes s) ?w1') =
          trace ?w1 @ Log INFO ''Cleaning up resources...''
            # concat (map (\<lambda>(name, p). [Terminate p, Wait p 5]) (worker_processes s))"
    by (simp add: log_def)
  then show ?thesis by (simp add: c1 c2)
qed

theorem C2_cleanup_twice_witness:
  "worker_processes (fst (cleanup stubborn_env one_worker busy_world)) = [(''w0'', 0)] \<and>
   trace (snd (cleanup stubborn_env one_worker busy_world))
     = [Log INFO ''Cleaning up resources...'', Terminate 0, Wait 0 5, Kill 0] \<and>
   fst (cleanup stubborn_env (fst (cleanup stubborn_env one_worker busy_world))
             (snd (cleanup stubborn_env one_worker busy_world)))
     = fst (cleanup stubborn_env one_worker busy_world) \<and>
   trace (snd (cleanup stubborn_env (fst (cleanup stubborn_env one_worker busy_world))
             (snd (cleanup stubborn_env one_worker busy_world))))
     = [Log INFO ''Cleaning up resources...'', Terminate 0, Wait 0 5, Kill 0,
        Log INFO ''Cleaning up resources...'', Terminate 0, Wait 0 5]"
  using C2_cleanup_twice [of stubborn_env one_worker busy_world]
  by (simp add: cleanup_def one_worker_def fresh_scaler_def busy_world_def world_at_def
      stubborn_env_def quiet_env_def log_def terminate_def wait_def kill_def)

subsection \<open>C8: cleanup and the lock\<close>

text \<open>
  C8 states that \<^verbatim>\<open>cleanup\<close> acquires the lock that guards the worker map before it
  iterates the workers, so that it never interleaves with a reconcile in flight. In a
  state where the lock is held (a reconcile is in flight: \<^verbatim>\<open>scale_workers\<close> itself
  could not proceed), \<^verbatim>\<open>cleanup\<close> runs to its end at once and signals the tracked worker.
\<close>

theorem C8_cleanup_without_lock_counterexample:
  "lock_held (one_worker\<lparr>lock_held := True\<rparr>) \<and>
   scale_workers default_config quiet_env (one_worker\<lparr>lock_held := True\<rparr>) busy_world 0 = None \<and>
   trace (snd (cleanup quiet_env (one_worker\<lparr>lock_held := True\<rparr>) busy_world))
     = [Log INFO ''Cleaning up resources...'', Terminate 0, Wait 0 5] \<and>
   lock_held (fst (cleanup quiet_env (one_worker\<lparr>lock_held := True\<rparr>) busy_world))"
  by (simp add: cleanup_def scale_workers_def one_worker_def fresh_scaler_def busy_world_def
      world_at_def quiet_env_def log_def terminate_def wait_def kill_def)

text \<open>
  C8, amended: \<^verbatim>\<open>cleanup\<close> does not acquire the lock. It iterates the worker map in the
  same way whether the lock is free or held and leaves the lock as it found it, so it is
  not serialised with a reconcile in flight. Only \<^verbatim>\<open>scale_workers\<close> takes the lock: it
  does not proceed while the lock is held, and it has released the lock whenever it
  returns or raises.
\<close>

theorem C8_cleanup_ignores_lock:
  "cleanup env (s\<lparr>lock_held := b\<rparr>) w =
     (let (s', w') = cleanup env s w in (s'\<lparr>lock_held := b\<rparr>, w')) \<and>
   (lock_held s \<longrightarrow> scale_workers cfg env s w q = None) \<and>
   (\<not> lock_held s \<longrightarrow>
      (\<exists>r s' w'. scale_workers cfg env s w q = Some (r, s', w') \<and> \<not> lock_held s'))"
  by (auto simp: cleanup_def scale_workers_def Let_def split: prod.splits)

theorem C8_cleanup_ignores_lock_witness:
  "cleanup quiet_env (one_worker\<lparr>lock_held := True\<rparr>) busy_world
     = ((fst (cleanup quiet_env one_worker busy_world))\<lparr>lock_held := True\<rparr>,
        snd (cleanup quiet_env one_worker busy_world)) \<and>
   scale_workers default_config quiet_env (one_worker\<lparr>lock_held := True\<rparr>) busy_world 0 = None \<and>
   (\<exists>r s' w'. scale_workers default_config quiet_env one_worker busy_world 0 = Some (r, s', w') \<and>
       \<not> lock_held s')"
proof -
  have a: "lock_held (one_worker\<lparr>lock_held := True\<rparr>)" "\<not> lock_held one_worker"
    by (simp_all add: one_worker_def fresh_scaler_def)
  from C8_cleanup_ignores_lock
    [where env = quiet_env and s = one_worker and b = True and w = busy_world
       and cfg = default_config and q = 0]
  have 1: "cleanup quiet_env (one_worker\<lparr>lock_held := True\<rparr>) busy_world
     = ((fst (cleanup quiet_env one_worker busy_world))\<lparr>lock_held := True\<rparr>,
        snd (cleanup quiet_env one_worker busy_world))"
    by (simp add: case_prod_unfold Let_def)
  from C8_cleanup_ignores_lock
    [where env = quiet_env and s = "one_worker\<lparr>lock_held := True\<rparr>" and b = True
       and w = busy_world and cfg = default_config and q = 0] a
  have 2: "scale_workers default_config quiet_env (one_worker\<lparr>lock_held := True\<rparr>) busy_world 0 = None"
    by blast
  from C8_cleanup_ignores_lock
    [where env = quiet_env and s = one_worker and b = True and w = busy_world
       and cfg = default_config and q = 0] a
  have 3: "\<exists>r s' w'. scale_workers default_config quiet_env one_worker busy_world 0 = Some (r, s', w') \<and>
       \<not> lock_held s'"
    by blast
  from 1 2 3 show ?thesis by blast
qed

section \<open>Properties of the control loop\<close>

subsection \<open>One tick\<close>

lemma scale_up_stamp:
  assumes "spawn_loop cfg env (nat n) s (log INFO ''Scaling up'' w) = (None, s1, w1)"
  shows "last_scale_time (fst (scale_up cfg env s w n)) = clock w1 \<and> clock w1 = clock w"
proof -
  have "clock w1 = clock (log INFO ''Scaling up'' w)"
    using spawn_loop_frame [OF assms] by simp
  then have "clock w1 = clock w" by (simp add: log_def)
  moreover have "last_scale_time (fst (scale_up cfg env s w n)) = clock w1"
    using assms by (simp add: scale_up_def Let_def split: prod.splits option.splits)
  ultimately show ?thesis by simp
qed

lemma scale_up_launches:
  assumes ok: "\<forall>i. popen_reply env i = None" and up: "scale_up cfg env s w n = (s', w')"
  shows "popen_calls w' = popen_calls w + nat n \<and>
         (\<forall>p. alive w' p \<longleftrightarrow> alive w p \<or> (popen_calls w \<le> p \<and> p < popen_calls w + nat n)) \<and>
         last_scale_time s' = clock w"
proof -
  obtain r s1 w1 where
    loop: "spawn_loop cfg env (nat n) s (log INFO ''Scaling up'' w) = (r, s1, w1)"
    by (metis prod_cases3)
  from spawn_loop_launches [OF ok loop]
  have r: "r = None" and calls: "popen_calls w1 = popen_calls w + nat n"
    and live: "\<forall>p. alive w1 p \<longleftrightarrow> alive w p \<or> (popen_calls w \<le> p \<and> p < popen_calls w + nat n)"
    by (simp_all add: log_def)
  from scale_up_stamp [OF loop [unfolded r]] up
  have stamp: "last_scale_time s' = clock w" by simp
  have "popen_calls w' = popen_calls w1 \<and> alive w' = alive w1"
    using up loop r
    by (auto simp: scale_up_def Let_def py_sleep_def log_def split: if_splits)
  with calls live stamp show ?thesis by simp
qed

lemma scale_workers_returns:
  assumes "\<not> lock_held s" and "tasks_per_worker cfg \<noteq> 0"
  shows "\<exists>s' w'. scale_workers cfg env s w q = Some (None, s', w')"
  using assms by (simp add: scale_workers_def Let_def split: prod.splits)

lemma run_tick_floor:
  assumes "get_queue_length env ''celery'' w = (q, wa)"
    and "get_active_workers env s wa = (cur, wb)"
    and "scale_workers cfg env s (log INFO ''Status'' wb) q = Some (None, s3, w3)"
    and "cur < min_workers cfg"
    and "scale_up cfg env s3 (log WARNING ''Worker count below minimum threshold'' w3)
           (min_workers cfg - cur) = (s4, w4)"
  shows "run_tick cfg env s w =
           Some (fst (py_sleep (check_interval cfg) w4), s4, snd (py_sleep (check_interval cfg) w4))"
  using assms by (simp add: run_tick_def Let_def case_prod_unfold)

lemma py_sleep_frame:
  "popen_calls (snd (py_sleep n w)) = popen_calls w \<and> alive (snd (py_sleep n w)) = alive w"
  by (simp add: py_sleep_def)

lemmas tick_eval =
  run_tick_def scale_workers_def scale_up_def get_queue_length_def get_active_workers_def
  should_scale_def desired_workers_def timedelta_seconds_def py_int_def py_sleep_def
  generate_worker_name_def popen_def log_def dict_set_def dict_keys_def
  default_config_def quiet_env_def failing_env_def fresh_scaler_def world_at_def
  Let_def numeral_3_eq_3

subsection \<open>C5: the floor check\<close>

text \<open>
  C5 states that in every tick in which the observed worker count is below
  \<^verbatim>\<open>min_workers\<close> the loop spawns \<open>min_workers - current\<close> workers, with neither the
  cooldown test nor the deadband test applied. Two ticks with an observed count of 0
  and a minimum of 3 spawn nothing: one in which \<^verbatim>\<open>Popen\<close> raises (\<^verbatim>\<open>scale_up\<close>
  catches the exception, logs it and gives up the batch), and one with
  \<^verbatim>\<open>tasks_per_worker = 0\<close>, where the division in \<^verbatim>\<open>scale_workers\<close> raises and the
  \<^verbatim>\<open>try\<close> block of the loop is left before the floor check.
\<close>

theorem C5_floor_check_counterexample:
  "fst (get_active_workers failing_env fresh_scaler
          (snd (get_queue_length failing_env ''celery'' (world_at 10000000)))) = 0 \<and>
   min_workers default_config = 3 \<and>
   map_option (worker_processes \<circ> fst \<circ> snd)
     (run_tick default_config failing_env fresh_scaler (world_at 10000000)) = Some [] \<and>
   map_option (trace \<circ> snd \<circ> snd)
     (run_tick default_config failing_env fresh_scaler (world_at 10000000))
     = Some [Log INFO ''Status'', Log WARNING ''Worker count below minimum threshold'',
             Log INFO ''Scaling up'', Popen ''celery_worker_host_0a1b2c3d'',
             Log ERROR ''Failed to scale up workers'', Sleep 10] \<and>
   fst (get_active_workers quiet_env fresh_scaler
          (snd (get_queue_length quiet_env ''celery'' (world_at 10000000)))) = 0 \<and>
   map_option (trace \<circ> snd \<circ> snd)
     (run_tick (default_config\<lparr>tasks_per_worker := 0\<rparr>) quiet_env fresh_scaler (world_at 10000000))
     = Some [Log INFO ''Status'', Log ERROR ''Error in main loop'', Sleep 10]"
  by (simp add: tick_eval)

text \<open>
  C5, amended: in every tick that reaches the floor check (\<^verbatim>\<open>scale_workers\<close> returned
  without raising, which \<^verbatim>\<open>tasks_per_worker \<noteq> 0\<close> ensures) and in which the observed
  worker count is below \<^verbatim>\<open>min_workers\<close>, the loop calls
  \<^verbatim>\<open>scale_up(min_workers - current)\<close> with neither the cooldown test nor the deadband
  test applied; when every launch succeeds, exactly \<open>min_workers - current\<close> processes are
  launched after the scaling step, and they run at the end of the tick. The statement
  holds for every \<^verbatim>\<open>last_scale_time\<close>, clock and cooldown period.
\<close>

theorem C5_floor_check_launches:
  assumes "tasks_per_worker cfg \<noteq> 0" and "\<not> lock_held s"
    and "\<forall>i. popen_reply env i = None"
    and "get_queue_length env ''celery'' w = (q, wa)"
    and "get_active_workers env s wa = (cur, wb)"
    and "cur < min_workers cfg"
  shows "\<exists>s3 w3 r s' w'.
           scale_workers cfg env s (log INFO ''Status'' wb) q = Some (None, s3, w3) \<and>
           run_tick cfg env s w = Some (r, s', w') \<and>
           popen_calls w' = popen_calls w3 + nat (min_workers cfg - cur) \<and>
           (\<forall>p. popen_calls w3 \<le> p \<and> p < popen_calls w' \<longrightarrow> alive w' p)"
proof -
  obtain s3 w3 where
    sw: "scale_workers cfg env s (log INFO ''Status'' wb) q = Some (None, s3, w3)"
    using scale_workers_returns [OF assms(2,1)] by blast
  let ?w3 = "log WARNING ''Worker count below minimum threshold'' w3"
  obtain s4 w4 where
    up: "scale_up cfg env s3 ?w3 (min_workers cfg - cur) = (s4, w4)"
    by (metis surj_pair)
  let ?w' = "snd (py_sleep (check_interval cfg) w4)"
  have tick: "run_tick cfg env s w = Some (fst (py_sleep (check_interval cfg) w4), s4, ?w')"
    by (rule run_tick_floor [OF assms(4,5) sw assms(6) up])
  from scale_up_launches [OF assms(3) up]
  have "popen_calls w4 = popen_calls w3 + nat (min_workers cfg - cur)"
    "\<forall>p. popen_calls w3 \<le> p \<and> p < popen_calls w4 \<longrightarrow> alive w4 p"
    by (simp_all add: log_def)
  then have "popen_calls ?w' = popen_calls w3 + nat (min_workers cfg - cur)"
    "\<forall>p. popen_calls w3 \<le> p \<and> p < popen_calls ?w' \<longrightarrow> alive ?w' p"
    by (simp_all add: py_sleep_frame)
  with sw tick show ?thesis by blast
qed

theorem C5_floor_check_launches_witness:
  "tasks_per_worker default_config \<noteq> 0 \<and> \<not> lock_held fresh_scaler \<and>
   (\<forall>i. popen_reply quiet_env i = None) \<and>
   get_queue_length quiet_env ''celery'' (world_at 10000000) = (0, (world_at 10000000)\<lparr>llen_calls := 1\<rparr>) \<and>
   get_active_workers quiet_env fresh_scaler ((world_at 10000000)\<lparr>llen_calls := 1\<rparr>)
     = (0, (world_at 10000000)\<lparr>llen_calls := 1, inspect_calls := 1\<rparr>) \<and>
   0 < min_workers default_config \<and>
   \<not> should_scale default_config fresh_scaler (world_at 10000000) 3 0 \<and>
   (\<exists>s3 w3 r s' w'.
      scale_workers default_config quiet_env fresh_scaler
        (log INFO ''Status'' ((world_at 10000000)\<lparr>llen_calls := 1, inspect_calls := 1\<rparr>)) 0
        = Some (None, s3, w3) \<and>
      run_tick default_config quiet_env fresh_scaler (world_at 10000000) = Some (r, s', w') \<and>
      popen_calls w' = popen_calls w3 + 3 \<and>
      (\<forall>p. popen_calls w3 \<le> p \<and> p < popen_calls w' \<longrightarrow> alive w' p))"
proof -
  have h1: "tasks_per_worker default_config \<noteq> 0" by (simp add: default_config_def)
  have h2: "\<not> lock_held fresh_scaler" by (simp add: fresh_scaler_def)
  have h3: "\<forall>i. popen_reply quiet_env i = None" by (simp add: quiet_env_def)
  have h4: "get_queue_length quiet_env ''celery'' (world_at 10000000)
              = (0, (world_at 10000000)\<lparr>llen_calls := 1\<rparr>)"
    by (simp add: get_queue_length_def quiet_env_def world_at_def)
  have h5: "get_active_workers quiet_env fresh_scaler ((world_at 10000000)\<lparr>llen_calls := 1\<rparr>)
              = (0, (world_at 10000000)\<lparr>llen_calls := 1, inspect_calls := 1\<rparr>)"
    by (simp add: get_active_workers_def quiet_env_def world_at_def fresh_scaler_def)
  have h6: "0 < min_workers default_config" by (simp add: default_config_def)
  have c: "\<not> should_scale default_config fresh_scaler (world_at 10000000) 3 0"
    by (simp add: should_scale_def default_config_def fresh_scaler_def world_at_def
        timedelta_seconds_def)
  have m: "nat (min_workers default_config - 0) = 3" by (simp add: default_config_def)
  from C5_floor_check_launches [OF h1 h2 h3 h4 h5 h6] h1 h2 h3 h4 h5 h6 c
  show ?thesis unfolding m by blast
qed

subsection \<open>C10: scale_up restarts the cooldown window\<close>

text \<open>
  C10: a call of \<^verbatim>\<open>scale_up\<close> whose spawn loop completes without an exception sets
  \<^verbatim>\<open>last_scale_time\<close> to the time of that moment. This includes the call made by the
  floor check of the control loop: after a tick whose floor check fired and whose launches
  succeeded, \<^verbatim>\<open>last_scale_time\<close> is the time at which the floor check ran, and
  \<^verbatim>\<open>should_scale\<close> returns false at every moment less than the cooldown period later,
  whatever the desired and current counts.
\<close>

theorem C10_scale_up_restarts_cooldown:
  "(spawn_loop cfg env (nat n) t (log INFO ''Scaling up'' v) = (None, t', v') \<longrightarrow>
      last_scale_time (fst (scale_up cfg env t v n)) = clock v' \<and> clock v' = clock v) \<and>
   (tasks_per_worker cfg \<noteq> 0 \<and> \<not> lock_held s \<and> (\<forall>i. popen_reply env i = None) \<and>
    get_queue_length env ''celery'' w = (q, wa) \<and> get_active_workers env s wa = (cur, wb) \<and>
    cur < min_workers cfg \<longrightarrow>
      (\<exists>s3 w3 r s' w'.
         scale_workers cfg env s (log INFO ''Status'' wb) q = Some (None, s3, w3) \<and>
         run_tick cfg env s w = Some (r, s', w') \<and>
         last_scale_time s' = clock w3 \<and>
         (\<forall>w'' d c. 0 \<le> clock w'' - clock w3 \<and>
                    clock w'' - clock w3 < cooldown_period cfg * 1000000 \<longrightarrow>
                    \<not> should_scale cfg s' w'' d c)))"
proof (rule conjI; rule impI)
  assume "spawn_loop cfg env (nat n) t (log INFO ''Scaling up'' v) = (None, t', v')"
  then show "last_scale_time (fst (scale_up cfg env t v n)) = clock v' \<and> clock v' = clock v"
    by (rule scale_up_stamp)
next
  assume h: "tasks_per_worker cfg \<noteq> 0 \<and> \<not> lock_held s \<and> (\<forall>i. popen_reply env i = None) \<and>
    get_queue_length env ''celery'' w = (q, wa) \<and> get_active_workers env s wa = (cur, wb) \<and>
    cur < min_workers cfg"
  obtain s3 w3 where
    sw: "scale_workers cfg env s (log INFO ''Status'' wb) q = Some (None, s3, w3)"
    using scale_workers_returns [of s cfg] h by blast
  let ?w3 = "log WARNING ''Worker count below minimum threshold'' w3"
  obtain s4 w4 where
    up: "scale_up cfg env s3 ?w3 (min_workers cfg - cur) = (s4, w4)"
    by (metis surj_pair)
  have tick: "run_tick cfg env s w =
      Some (fst (py_sleep (check_interval cfg) w4), s4, snd (py_sleep (check_interval cfg) w4))"
  proof -
    from h have "get_queue_length env ''celery'' w = (q, wa)" "get_active_workers env s wa = (cur, wb)"
      "cur < min_workers cfg" by blast+
    then show ?thesis by (rule run_tick_floor [OF _ _ sw _ up])
  qed
  have stamp: "last_scale_time s4 = clock w3"
    using scale_up_launches [OF _ up] h by (simp add: log_def)
  have quiet: "\<forall>w'' d c. 0 \<le> clock w'' - clock w3 \<and>
                    clock w'' - clock w3 < cooldown_period cfg * 1000000 \<longrightarrow>
                    \<not> should_scale cfg s4 w'' d c"
  proof (intro allI impI)
    fix w'' :: world and d c :: int
    assume t: "0 \<le> clock w'' - clock w3 \<and> clock w'' - clock w3 < cooldown_period cfg * 1000000"
    have "(clock w'' - last_scale_time s4) mod 86400000000 \<le> clock w'' - last_scale_time s4"
      using t stamp by (simp add: zmod_le_nonneg_dividend)
    with t stamp show "\<not> should_scale cfg s4 w'' d c"
      by (intro should_scale_cooldown) linarith
  qed
  from sw tick stamp quiet
  show "\<exists>s3 w3 r s' w'.
         scale_workers cfg env s (log INFO ''Status'' wb) q = Some (None, s3, w3) \<and>
         run_tick cfg env s w = Some (r, s', w') \<and>
         last_scale_time s' = clock w3 \<and>
         (\<forall>w'' d c. 0 \<le> clock w'' - clock w3 \<and>
                    clock w'' - clock w3 < cooldown_period cfg * 1000000 \<longrightarrow>
                    \<not> should_scale cfg s' w'' d c)"
    by blast
qed

theorem C10_scale_up_restarts_cooldown_witness:
  "fst (spawn_loop default_config quiet_env (nat 3) fresh_scaler
          (log INFO ''Scaling up'' (world_at 10000000))) = None \<and>
   last_scale_time (fst (scale_up default_config quiet_env fresh_scaler (world_at 10000000) 3))
     = 10000000 \<and>
   (\<exists>s3 w3 r s' w'.
      scale_workers default_config quiet_env fresh_scaler
        (log INFO ''Status'' ((world_at 10000000)\<lparr>llen_calls := 1, inspect_calls := 1\<rparr>)) 0
        = Some (None, s3, w3) \<and>
      run_tick default_config quiet_env fresh_scaler (world_at 10000000) = Some (r, s', w') \<and>
      last_scale_time s' = clock w3 \<and>
      (\<forall>w'' d c. 0 \<le> clock w'' - clock w3 \<and>
                 clock w'' - clock w3 < cooldown_period default_config * 1000000 \<longrightarrow>
                 \<not> should_scale default_config s' w'' d c))"
proof -
  let ?loop = "spawn_loop default_config quiet_env (nat 3) fresh_scaler
                 (log INFO ''Scaling up'' (world_at 10000000))"
  have l: "fst ?loop = None"
    by (simp add: generate_worker_name_def popen_def log_def dict_set_def dict_keys_def
        default_config_def quiet_env_def fresh_scaler_def world_at_def Let_def numeral_3_eq_3)
  then have l': "?loop = (None, fst (snd ?loop), snd (snd ?loop))"
    by (metis prod.collapse)
  have h: "tasks_per_worker default_config \<noteq> 0 \<and> \<not> lock_held fresh_scaler \<and>
      (\<forall>i. popen_reply quiet_env i = None) \<and>
      get_queue_length quiet_env ''celery'' (world_at 10000000) = (0, (world_at 10000000)\<lparr>llen_calls := 1\<rparr>) \<and>
      get_active_workers quiet_env fresh_scaler ((world_at 10000000)\<lparr>llen_calls := 1\<rparr>)
        = (0, (world_at 10000000)\<lparr>llen_calls := 1, inspect_calls := 1\<rparr>) \<and>
      0 < min_workers default_config"
    by (simp add: get_queue_length_def get_active_workers_def quiet_env_def world_at_def
        fresh_scaler_def default_config_def)
  note inst = C10_scale_up_restarts_cooldown
    [where cfg = default_config and env = quiet_env and n = 3 and t = fresh_scaler
       and v = "world_at 10000000" and t' = "fst (snd ?loop)" and v' = "snd (snd ?loop)"
       and s = fresh_scaler and w = "world_at 10000000" and q = 0
       and wa = "(world_at 10000000)\<lparr>llen_calls := 1\<rparr>" and cur = 0
       and wb = "(world_at 10000000)\<lparr>llen_calls := 1, inspect_calls := 1\<rparr>"]
  from inst l' have
    "last_scale_time (fst (scale_up default_config quiet_env fresh_scaler (world_at 10000000) 3))
       = clock (world_at 10000000)"
    by simp
  then have a: "last_scale_time (fst (scale_up default_config quiet_env fresh_scaler (world_at 10000000) 3))
       = 10000000"
    by (simp add: world_at_def)
  from inst h have b: "\<exists>s3 w3 r s' w'.
      scale_workers default_config quiet_env fresh_scaler
        (log INFO ''Status'' ((world_at 10000000)\<lparr>llen_calls := 1, inspect_calls := 1\<rparr>)) 0
        = Some (None, s3, w3) \<and>
      run_tick default_config quiet_env fresh_scaler (world_at 10000000) = Some (r, s', w') \<and>
      last_scale_time s' = clock w3 \<and>
      (\<forall>w'' d c. 0 \<le> clock w'' - clock w3 \<and>
                 clock w'' - clock w3 < cooldown_period default_config * 1000000 \<longrightarrow>
                 \<not> should_scale default_config s' w'' d c)"
    by blast
  from l a b show ?thesis by blast
qed

end
